theory Spec2Isabelle
  imports Main "HOL-Library.Sublist"
begin

section \<open>Data model (redux/projectsSlice.ts, lib/k8s)\<close>

text \<open>
  \<^verbatim>\<open>interface StringSelector { operator: 'Equals' | 'NotEquals'; value: string }\<close>.
  At run time the operator is a plain string: the project form offers
  \<^verbatim>\<open>Exists\<close> and \<^verbatim>\<open>NotExists\<close> as well and stores whatever was picked, and the
  matcher switches on the string with a default branch. The field is therefore a
  string here, so that the default branch of the switch is reachable.
\<close>

record StringSelector =
  operator :: string
  value' :: string

text \<open>
  \<^verbatim>\<open>ApiResource\<close> as the entries of \<^verbatim>\<open>defaultApiResources\<close> have it. Its
  \<^verbatim>\<open>kind\<close> field is \<open>apiKind\<close> here, since \<open>kind\<close> is the field of the resource.
\<close>

record ApiResource =
  apiVersion :: string
  version :: string
  groupName :: "string option"
  pluralName :: string
  singularName :: string
  apiKind :: string
  isNamespaced :: bool

text \<open>
  The parts of a \<^verbatim>\<open>KubeObject\<close> the matcher reads: \<^verbatim>\<open>kind\<close>, \<^verbatim>\<open>cluster\<close>, and
  \<^verbatim>\<open>metadata?.namespace\<close>, \<^verbatim>\<open>metadata?.labels\<close>. The metadata object, the namespace
  and the labels mapping may each be absent (\<^verbatim>\<open>undefined\<close>), which is \<open>None\<close>.
  A labels object is a map from keys to string values; a key that is not an own
  property reads as \<^verbatim>\<open>undefined\<close> (or as an inherited non-string member), which
  is never \<^verbatim>\<open>===\<close> to a string and is \<open>None\<close> here.
\<close>

record KubeMetadata =
  name :: string
  namespace :: "string option"
  labels :: "(string \<rightharpoonup> string) option"

record KubeObject =
  kind :: string
  cluster :: string
  metadata :: "KubeMetadata option"

text \<open>
  \<^verbatim>\<open>ProjectDefinition\<close>. \<^verbatim>\<open>labelSelectors: Record<string, StringSelector>\<close> is only
  ever read through \<^verbatim>\<open>Object.entries\<close>, so the field holds that list of
  (key, selector) entries.
\<close>

record ProjectDefinition =
  id' :: string
  projectName :: string
  description :: "string option"
  color :: "string option"
  icon :: "string option"
  labelSelectors :: "(string \<times> StringSelector) list"
  namespaceSelectors :: "StringSelector list"
  clusterSelectors :: "StringSelector list"
  apiResources :: "ApiResource list"
  createdAt :: string
  updatedAt :: string

section \<open>Health presentation and aggregation (projectUtils.ts)\<close>

text \<open>
  \<^verbatim>\<open>getHealthIcon(healthy, unhealthy, warning)\<close>. The arguments are counts;
  JavaScript numbers are exact on the integers that occur as counts.
\<close>

definition getHealthIcon :: "int \<Rightarrow> int \<Rightarrow> int \<Rightarrow> string" where
  "getHealthIcon healthy unhealthy warning =
     (if healthy + unhealthy + warning = 0 then ''mdi:help-circle''
      else if unhealthy > 0 then ''mdi:alert-circle''
      else if warning > 0 then ''mdi:alert''
      else ''mdi:check-circle'')"

definition getResourcesByKind :: "KubeObject list \<Rightarrow> string \<Rightarrow> KubeObject list" where
  "getResourcesByKind resources k = filter (\<lambda>resource. kind resource = k) resources"

text \<open>\<^verbatim>\<open>type KubeObjectStatus = 'error' | 'success' | 'warning'\<close>.\<close>

datatype KubeObjectStatus = error | success | warning

text \<open>
  lodash \<^verbatim>\<open>countBy(collection, iteratee)\<close>: starting from the empty object, each
  element increments the entry of its key, creating the entry with 1 when the
  object does not have the key yet. Keys that no element produces are not in
  the result.
\<close>

definition countStep :: "('a \<Rightarrow> 'k) \<Rightarrow> ('k \<rightharpoonup> nat) \<Rightarrow> 'a \<Rightarrow> ('k \<rightharpoonup> nat)" where
  "countStep iteratee result x =
     (case result (iteratee x) of
        Some n \<Rightarrow> result(iteratee x \<mapsto> n + 1)
      | None \<Rightarrow> result(iteratee x \<mapsto> 1))"

definition countBy :: "'a list \<Rightarrow> ('a \<Rightarrow> 'k) \<Rightarrow> ('k \<rightharpoonup> nat)" where
  "countBy collection iteratee = foldl (countStep iteratee) Map.empty collection"

text \<open>
  \<^verbatim>\<open>getResourcesHealth = resources => countBy(resources, it => getStatus(it))\<close>.
  \<^verbatim>\<open>getStatus\<close> (resourceMap/nodes/KubeObjectStatus) is a parameter. The cast
  \<^verbatim>\<open>as Record<KubeObjectStatus, number>\<close> changes nothing at run time: reading a
  bucket that is not in the object gives \<^verbatim>\<open>undefined\<close>, which is \<open>None\<close>.
\<close>

definition getResourcesHealth ::
  "(KubeObject \<Rightarrow> KubeObjectStatus) \<Rightarrow> KubeObject list \<Rightarrow> (KubeObjectStatus \<rightharpoonup> nat)" where
  "getResourcesHealth getStatus resources = countBy resources (\<lambda>it. getStatus it)"

section \<open>Selector matcher (projectUtils.ts)\<close>

text \<open>\<^verbatim>\<open>resource.metadata?.labels || {}\<close>\<close>

definition resourceLabels :: "KubeObject \<Rightarrow> (string \<rightharpoonup> string)" where
  "resourceLabels resource =
     (case metadata resource of
        None \<Rightarrow> Map.empty
      | Some m \<Rightarrow> (case labels m of None \<Rightarrow> Map.empty | Some l \<Rightarrow> l))"

text \<open>\<^verbatim>\<open>resource.metadata?.namespace\<close>\<close>

definition resourceNamespace :: "KubeObject \<Rightarrow> string option" where
  "resourceNamespace resource =
     (case metadata resource of None \<Rightarrow> None | Some m \<Rightarrow> namespace m)"

definition matchesLabelSelector :: "KubeObject \<Rightarrow> string \<Rightarrow> StringSelector \<Rightarrow> bool" where
  "matchesLabelSelector resource key selector =
     (let labelValue = resourceLabels resource key in
      if operator selector = ''Equals'' then labelValue = Some (value' selector)
      else if operator selector = ''NotEquals'' then labelValue \<noteq> Some (value' selector)
      else False)"

text \<open>The four local constants of \<^verbatim>\<open>matchesProject\<close>.\<close>

definition matchesApiResource :: "KubeObject \<Rightarrow> ProjectDefinition \<Rightarrow> bool" where
  "matchesApiResource resource project =
     list_ex (\<lambda>apiResource. apiKind apiResource = kind resource) (apiResources project)"

definition matchesCluster :: "KubeObject \<Rightarrow> ProjectDefinition \<Rightarrow> bool" where
  "matchesCluster resource project =
     list_ex (\<lambda>c. value' c = cluster resource) (clusterSelectors project)"

definition matchesNamespace :: "KubeObject \<Rightarrow> ProjectDefinition \<Rightarrow> bool" where
  "matchesNamespace resource project =
     list_ex (\<lambda>ns. Some (value' ns) = resourceNamespace resource) (namespaceSelectors project)"

definition matchesLabels :: "KubeObject \<Rightarrow> ProjectDefinition \<Rightarrow> bool" where
  "matchesLabels resource project =
     list_all (\<lambda>(key, selector). matchesLabelSelector resource key selector)
       (labelSelectors project)"

definition matchesProject :: "KubeObject \<Rightarrow> ProjectDefinition \<Rightarrow> bool" where
  "matchesProject resource project =
     (if length (apiResources project) > 0 \<and> \<not> matchesApiResource resource project then False
      else if length (clusterSelectors project) > 0 \<and> \<not> matchesCluster resource project
        then False
      else if length (namespaceSelectors project) > 0 \<and> \<not> matchesNamespace resource project
        then False
      else if length (labelSelectors project) > 0 \<and> \<not> matchesLabels resource project
        then False
      else if length (labelSelectors project) = 0 \<and> length (namespaceSelectors project) = 0
        then False
      else True)"

definition getProjectsForResource ::
  "KubeObject \<Rightarrow> ProjectDefinition list \<Rightarrow> ProjectDefinition list" where
  "getProjectsForResource resource projects =
     filter (\<lambda>project. matchesProject resource project) projects"

definition getProjectResources :: "ProjectDefinition \<Rightarrow> KubeObject list \<Rightarrow> KubeObject list" where
  "getProjectResources project resources =
     filter (\<lambda>resource. matchesProject resource project) resources"

section \<open>The claims' words as definitions\<close>

text \<open>
  How the specification evaluates a cluster or namespace selector against a value:
  ``Equals: value equality; NotEquals: value inequality''. These definitions follow
  the specification, not the code, and are compared with the code below.
\<close>

definition spec_selectorHolds :: "StringSelector \<Rightarrow> string option \<Rightarrow> bool" where
  "spec_selectorHolds s v =
     (if operator s = ''Equals'' then v = Some (value' s)
      else if operator s = ''NotEquals'' then v \<noteq> Some (value' s)
      else False)"

definition spec_clusterGroupHolds :: "KubeObject \<Rightarrow> ProjectDefinition \<Rightarrow> bool" where
  "spec_clusterGroupHolds R P =
     list_ex (\<lambda>s. spec_selectorHolds s (Some (cluster R))) (clusterSelectors P)"

definition spec_namespaceGroupHolds :: "KubeObject \<Rightarrow> ProjectDefinition \<Rightarrow> bool" where
  "spec_namespaceGroupHolds R P =
     list_ex (\<lambda>s. spec_selectorHolds s (resourceNamespace R)) (namespaceSelectors P)"

definition spec_anyGroupNonEmpty :: "ProjectDefinition \<Rightarrow> bool" where
  "spec_anyGroupNonEmpty P =
     (length (apiResources P) > 0 \<or> length (clusterSelectors P) > 0 \<or>
      length (namespaceSelectors P) > 0 \<or> length (labelSelectors P) > 0)"

definition spec_groupConditionsHold :: "KubeObject \<Rightarrow> ProjectDefinition \<Rightarrow> bool" where
  "spec_groupConditionsHold R P =
     ((apiResources P = [] \<or> list_ex (\<lambda>a. apiKind a = kind R) (apiResources P)) \<and>
      (clusterSelectors P = [] \<or> spec_clusterGroupHolds R P) \<and>
      (namespaceSelectors P = [] \<or> spec_namespaceGroupHolds R P) \<and>
      (labelSelectors P = [] \<or>
         list_all (\<lambda>(k, s). matchesLabelSelector R k s) (labelSelectors P)))"

text \<open>
  The per-key label predicate in the specification's words: an absent key fails
  Equals and passes NotEquals; a present value passes Equals when it is the
  required value and passes NotEquals otherwise.
\<close>

fun spec_labelPredicate :: "string option \<Rightarrow> StringSelector \<Rightarrow> bool" where
  "spec_labelPredicate None s = (operator s = ''NotEquals'')"
| "spec_labelPredicate (Some x) s =
     (if operator s = ''Equals'' then x = value' s
      else operator s = ''NotEquals'' \<and> x \<noteq> value' s)"

text \<open>A resource whose labels mapping is replaced by the empty mapping.\<close>

definition withEmptyLabels :: "KubeObject \<Rightarrow> KubeObject" where
  "withEmptyLabels R =
     R\<lparr>metadata :=
         Some (case metadata R of
                 None \<Rightarrow> \<lparr>name = [], namespace = None, labels = Some Map.empty\<rparr>
               | Some m \<Rightarrow> m\<lparr>labels := Some Map.empty\<rparr>)\<rparr>"

section \<open>Fixtures (projectUtils.test.ts)\<close>

definition makeDeployment ::
  "string \<Rightarrow> string \<Rightarrow> (string \<rightharpoonup> string) \<Rightarrow> string \<Rightarrow> KubeObject" where
  "makeDeployment n ns ls c =
     \<lparr>kind = ''Deployment'', cluster = c,
      metadata = Some \<lparr>name = n, namespace = Some ns, labels = Some ls\<rparr>\<rparr>"

definition baseProject :: ProjectDefinition where
  "baseProject =
     \<lparr>id' = ''p'', projectName = ''proj'', description = Some [],
      color = Some ''#1976d2'', icon = Some ''mdi:application'',
      labelSelectors = [], namespaceSelectors = [], clusterSelectors = [],
      apiResources = [], createdAt = ''now'', updatedAt = ''now''\<rparr>"

definition Equals :: "string \<Rightarrow> StringSelector" where
  "Equals v = \<lparr>operator = ''Equals'', value' = v\<rparr>"

definition NotEquals :: "string \<Rightarrow> StringSelector" where
  "NotEquals v = \<lparr>operator = ''NotEquals'', value' = v\<rparr>"

text \<open>The project of the test ``matches by labels/namespaces/cluster''.\<close>

definition shopProject :: ProjectDefinition where
  "shopProject =
     baseProject\<lparr>labelSelectors := [(''app'', Equals ''shop'')],
                 namespaceSelectors := [Equals ''default''],
                 clusterSelectors := [Equals ''cluster-a'']\<rparr>"

definition shopDeployment :: KubeObject where
  "shopDeployment = makeDeployment ''d1'' ''default'' [''app'' \<mapsto> ''shop''] ''cluster-a''"

text \<open>A project that selects by cluster only.\<close>

definition clusterOnlyProject :: ProjectDefinition where
  "clusterOnlyProject = baseProject\<lparr>clusterSelectors := [Equals ''cluster-a'']\<rparr>"

text \<open>Projects whose cluster or namespace selector is a NotEquals selector.\<close>

definition notClusterProject :: "string \<Rightarrow> ProjectDefinition" where
  "notClusterProject c =
     baseProject\<lparr>namespaceSelectors := [Equals ''default''],
                 clusterSelectors := [NotEquals c]\<rparr>"

definition notNamespaceProject :: "string \<Rightarrow> ProjectDefinition" where
  "notNamespaceProject ns = baseProject\<lparr>namespaceSelectors := [NotEquals ns]\<rparr>"

text \<open>A project with a label selector whose operator the form offers as ``Exists''.\<close>

definition existsSelector :: StringSelector where
  "existsSelector = \<lparr>operator = ''Exists'', value' = []\<rparr>"

definition existsProject :: ProjectDefinition where
  "existsProject = baseProject\<lparr>labelSelectors := [(''app'', existsSelector)]\<rparr>"

text \<open>A cluster-scoped resource (no namespace) and one without metadata.\<close>

definition clusterScoped :: KubeObject where
  "clusterScoped =
     \<lparr>kind = ''StorageClass'', cluster = ''cluster-a'',
      metadata = Some \<lparr>name = ''sc'', namespace = None, labels = Some Map.empty\<rparr>\<rparr>"

definition noMetadata :: KubeObject where
  "noMetadata = \<lparr>kind = ''Deployment'', cluster = ''cluster-a'', metadata = None\<rparr>"

definition noLabels :: KubeObject where
  "noLabels =
     \<lparr>kind = ''Deployment'', cluster = ''cluster-a'',
      metadata = Some \<lparr>name = ''d'', namespace = Some ''default'', labels = None\<rparr>\<rparr>"

section \<open>Shared facts about the matcher\<close>

lemma matchesProject_iff:
  "matchesProject R P \<longleftrightarrow>
     (apiResources P = [] \<or> matchesApiResource R P) \<and>
     (clusterSelectors P = [] \<or> matchesCluster R P) \<and>
     (namespaceSelectors P = [] \<or> matchesNamespace R P) \<and>
     matchesLabels R P \<and>
     (labelSelectors P \<noteq> [] \<or> namespaceSelectors P \<noteq> [])"
  by (cases "labelSelectors P") (auto simp: matchesProject_def matchesLabels_def)


lemmas matcher_defs = matchesProject_def matchesApiResource_def matchesCluster_def
  matchesNamespace_def matchesLabels_def matchesLabelSelector_def resourceLabels_def
  resourceNamespace_def

lemma matchesLabelSelector_cases:
  "matchesLabelSelector R k s \<longleftrightarrow>
     (operator s = ''Equals'' \<and> resourceLabels R k = Some (value' s)) \<or>
     (operator s = ''NotEquals'' \<and> resourceLabels R k \<noteq> Some (value' s))"
  by (auto simp: matchesLabelSelector_def Let_def)

lemma spec_selectorHolds_Equals:
  "operator s = ''Equals'' \<Longrightarrow> spec_selectorHolds s v \<longleftrightarrow> Some (value' s) = v"
  by (auto simp: spec_selectorHolds_def)

lemma withEmptyLabels_simps:
  "kind (withEmptyLabels R) = kind R"
  "cluster (withEmptyLabels R) = cluster R"
  "resourceNamespace (withEmptyLabels R) = resourceNamespace R"
  "resourceLabels (withEmptyLabels R) = Map.empty"
  by (simp_all add: withEmptyLabels_def resourceNamespace_def resourceLabels_def
      split: option.splits)

lemma resourceLabels_absent:
  "metadata R = None \<or> (\<exists>m. metadata R = Some m \<and> labels m = None) \<Longrightarrow>
   resourceLabels R = Map.empty"
  by (auto simp: resourceLabels_def)

section \<open>The all-empty project\<close>

text \<open>
  C4. A project whose four selector groups (labelSelectors, namespaceSelectors,
  clusterSelectors, apiResources) are all empty matches no resource.
\<close>

theorem empty_project_matches_nothing:
  assumes "labelSelectors P = []" and "namespaceSelectors P = []"
    and "clusterSelectors P = []" and "apiResources P = []"
  shows "\<not> matchesProject R P"
  using assms by (simp add: matchesProject_def)

theorem empty_project_matches_nothing_witness:
  "labelSelectors baseProject = [] \<and> namespaceSelectors baseProject = [] \<and>
   clusterSelectors baseProject = [] \<and> apiResources baseProject = [] \<and>
   \<not> matchesProject shopDeployment baseProject"
  using empty_project_matches_nothing [of baseProject shopDeployment]
  by (simp add: baseProject_def)

section \<open>When the group conditions hold\<close>

text \<open>
  C1 as stated: whenever some selector group is non-empty and every non-empty
  group's condition holds, \<open>matchesProject\<close> returns true. It fails in two ways.
  A project that selects by cluster only has a non-empty group whose condition
  holds for a resource of that cluster, yet the final check of \<open>matchesProject\<close>
  looks at labelSelectors and namespaceSelectors only and returns false. And a
  NotEquals namespace selector whose value differs from the resource's namespace
  holds in the specification's reading, yet the code compares values only.
\<close>

theorem groups_hold_counterexample:
  "\<not> (spec_anyGroupNonEmpty clusterOnlyProject \<and>
        spec_groupConditionsHold shopDeployment clusterOnlyProject
        \<longrightarrow> matchesProject shopDeployment clusterOnlyProject) \<and>
   \<not> (spec_anyGroupNonEmpty (notNamespaceProject ''other'') \<and>
        spec_groupConditionsHold shopDeployment (notNamespaceProject ''other'')
        \<longrightarrow> matchesProject shopDeployment (notNamespaceProject ''other''))"
  by (simp add: matcher_defs makeDeployment_def baseProject_def Equals_def NotEquals_def
      shopDeployment_def clusterOnlyProject_def notNamespaceProject_def
      spec_anyGroupNonEmpty_def spec_groupConditionsHold_def
      spec_clusterGroupHolds_def spec_namespaceGroupHolds_def spec_selectorHolds_def)

text \<open>
  C1, amended. If labelSelectors or namespaceSelectors is non-empty and every
  non-empty group's condition holds as the code evaluates it (the kind is in the
  allow-list, some cluster selector has the resource's cluster as its value, some
  namespace selector has the resource's namespace as its value, every label
  selector holds), then \<open>matchesProject\<close> returns true. It returns false on account
  of emptiness whenever labelSelectors and namespaceSelectors are both empty,
  whatever apiResources and clusterSelectors contain.
\<close>

theorem matchesProject_when_groups_hold:
  "((labelSelectors P \<noteq> [] \<or> namespaceSelectors P \<noteq> []) \<and>
    (apiResources P = [] \<or> (\<exists>a \<in> set (apiResources P). apiKind a = kind R)) \<and>
    (clusterSelectors P = [] \<or> (\<exists>c \<in> set (clusterSelectors P). value' c = cluster R)) \<and>
    (namespaceSelectors P = [] \<or>
       (\<exists>n \<in> set (namespaceSelectors P). Some (value' n) = resourceNamespace R)) \<and>
    (\<forall>(k, s) \<in> set (labelSelectors P). matchesLabelSelector R k s)
    \<longrightarrow> matchesProject R P) \<and>
   (labelSelectors P = [] \<and> namespaceSelectors P = [] \<longrightarrow> \<not> matchesProject R P)"
  unfolding matchesProject_iff matchesApiResource_def matchesCluster_def matchesNamespace_def
    matchesLabels_def list_ex_iff list_all_iff
  by blast

theorem matchesProject_when_groups_hold_witness:
  "labelSelectors shopProject \<noteq> [] \<and>
   apiResources shopProject = [] \<and>
   list_ex (\<lambda>c. value' c = cluster shopDeployment) (clusterSelectors shopProject) \<and>
   list_ex (\<lambda>n. Some (value' n) = resourceNamespace shopDeployment)
     (namespaceSelectors shopProject) \<and>
   list_all (\<lambda>(k, s). matchesLabelSelector shopDeployment k s) (labelSelectors shopProject) \<and>
   matchesProject shopDeployment shopProject \<and>
   labelSelectors clusterOnlyProject = [] \<and> namespaceSelectors clusterOnlyProject = [] \<and>
   \<not> matchesProject shopDeployment clusterOnlyProject"
  using matchesProject_when_groups_hold [of shopProject shopDeployment]
    matchesProject_when_groups_hold [of clusterOnlyProject shopDeployment]
  by (simp add: makeDeployment_def baseProject_def Equals_def shopProject_def
      shopDeployment_def clusterOnlyProject_def matchesLabelSelector_def resourceLabels_def
      resourceNamespace_def)

section \<open>Cluster and namespace selectors\<close>

text \<open>
  C2 as stated: a cluster (namespace) selector is evaluated according to its
  operator, and \<open>matchesProject\<close> returns false when no selector of a non-empty
  group evaluates true. The code never reads the operator of these selectors:
  a NotEquals selector naming the resource's own cluster (namespace) evaluates
  false by its operator, yet the resource matches; one naming another cluster
  (namespace) evaluates true by its operator, yet the group's check fails.
\<close>

theorem selector_operator_counterexample:
  "\<not> (length (clusterSelectors (notClusterProject ''cluster-a'')) > 0 \<and>
        \<not> spec_clusterGroupHolds shopDeployment (notClusterProject ''cluster-a'')
        \<longrightarrow> \<not> matchesProject shopDeployment (notClusterProject ''cluster-a'')) \<and>
   \<not> (length (namespaceSelectors (notNamespaceProject ''default'')) > 0 \<and>
        \<not> spec_namespaceGroupHolds shopDeployment (notNamespaceProject ''default'')
        \<longrightarrow> \<not> matchesProject shopDeployment (notNamespaceProject ''default'')) \<and>
   matchesCluster shopDeployment (notClusterProject ''cluster-b'')
     \<noteq> spec_clusterGroupHolds shopDeployment (notClusterProject ''cluster-b'') \<and>
   matchesNamespace shopDeployment (notNamespaceProject ''other'')
     \<noteq> spec_namespaceGroupHolds shopDeployment (notNamespaceProject ''other'')"
  by (simp add: matcher_defs makeDeployment_def baseProject_def Equals_def NotEquals_def
      shopDeployment_def notClusterProject_def notNamespaceProject_def
      spec_clusterGroupHolds_def spec_namespaceGroupHolds_def spec_selectorHolds_def)

text \<open>
  C2, amended. For a project with non-empty clusterSelectors (resp.
  namespaceSelectors) the group's condition holds iff at least one selector's value
  equals the resource's cluster (resp. namespace); the operator is not consulted.
  If no selector of the non-empty group has that value, \<open>matchesProject\<close> returns
  false. When every selector of the group is an Equals selector, this is the
  evaluation by operator.
\<close>

theorem selector_groups_match_by_value:
  "(clusterSelectors P \<noteq> [] \<longrightarrow>
      (matchesCluster R P \<longleftrightarrow> (\<exists>s \<in> set (clusterSelectors P). value' s = cluster R)) \<and>
      (\<not> matchesCluster R P \<longrightarrow> \<not> matchesProject R P)) \<and>
   (namespaceSelectors P \<noteq> [] \<longrightarrow>
      (matchesNamespace R P \<longleftrightarrow>
         (\<exists>s \<in> set (namespaceSelectors P). Some (value' s) = resourceNamespace R)) \<and>
      (\<not> matchesNamespace R P \<longrightarrow> \<not> matchesProject R P)) \<and>
   ((\<forall>s \<in> set (clusterSelectors P). operator s = ''Equals'') \<longrightarrow>
      matchesCluster R P = spec_clusterGroupHolds R P) \<and>
   ((\<forall>s \<in> set (namespaceSelectors P). operator s = ''Equals'') \<longrightarrow>
      matchesNamespace R P = spec_namespaceGroupHolds R P)"
proof -
  have c: "matchesCluster R P \<longleftrightarrow> (\<exists>s \<in> set (clusterSelectors P). value' s = cluster R)"
    by (simp add: matchesCluster_def list_ex_iff)
  have n: "matchesNamespace R P \<longleftrightarrow>
      (\<exists>s \<in> set (namespaceSelectors P). Some (value' s) = resourceNamespace R)"
    by (simp add: matchesNamespace_def list_ex_iff)
  have ce: "matchesCluster R P = spec_clusterGroupHolds R P"
    if "\<forall>s \<in> set (clusterSelectors P). operator s = ''Equals''"
    using that unfolding c spec_clusterGroupHolds_def list_ex_iff
    by (auto simp: spec_selectorHolds_Equals)
  have ne: "matchesNamespace R P = spec_namespaceGroupHolds R P"
    if "\<forall>s \<in> set (namespaceSelectors P). operator s = ''Equals''"
    using that unfolding n spec_namespaceGroupHolds_def list_ex_iff
    by (auto simp: spec_selectorHolds_Equals)
  have cp: "\<not> matchesProject R P" if "clusterSelectors P \<noteq> []" "\<not> matchesCluster R P"
    using that by (simp add: matchesProject_iff)
  have np: "\<not> matchesProject R P" if "namespaceSelectors P \<noteq> []" "\<not> matchesNamespace R P"
    using that by (simp add: matchesProject_iff)
  from c n ce ne cp np show ?thesis by blast
qed

theorem selector_groups_match_by_value_witness:
  "clusterSelectors shopProject \<noteq> [] \<and> namespaceSelectors shopProject \<noteq> [] \<and>
   list_all (\<lambda>s. operator s = ''Equals'') (clusterSelectors shopProject) \<and>
   list_all (\<lambda>s. operator s = ''Equals'') (namespaceSelectors shopProject) \<and>
   matchesCluster shopDeployment shopProject \<and>
   spec_clusterGroupHolds shopDeployment shopProject \<and>
   matchesNamespace shopDeployment shopProject \<and>
   spec_namespaceGroupHolds shopDeployment shopProject \<and>
   \<not> matchesCluster noMetadata (notClusterProject ''cluster-b'') \<and>
   \<not> matchesNamespace noMetadata (notClusterProject ''cluster-b'') \<and>
   \<not> matchesProject noMetadata (notClusterProject ''cluster-b'')"
  using selector_groups_match_by_value [of shopProject shopDeployment]
    selector_groups_match_by_value [of "notClusterProject ''cluster-b''" noMetadata]
  by (simp add: makeDeployment_def baseProject_def Equals_def NotEquals_def shopProject_def
      shopDeployment_def notClusterProject_def noMetadata_def matcher_defs
      spec_clusterGroupHolds_def spec_namespaceGroupHolds_def spec_selectorHolds_def)

section \<open>Health of the empty list\<close>

text \<open>
  C3. The claim is that the health of the empty resource list is the record with
  the three buckets at zero. \<open>countBy\<close> creates a bucket only when a resource falls
  into it, so on the empty list \<open>getResourcesHealth\<close> is the empty object: none of
  success, warning and error is present, and the result is not the all-zero record.
\<close>

theorem getResourcesHealth_empty:
  "getResourcesHealth getStatus [] = Map.empty \<and>
   getResourcesHealth getStatus [] success = None \<and>
   getResourcesHealth getStatus [] warning = None \<and>
   getResourcesHealth getStatus [] error = None \<and>
   getResourcesHealth getStatus [] \<noteq> [success \<mapsto> 0, warning \<mapsto> 0, error \<mapsto> 0]"
proof -
  have e: "getResourcesHealth getStatus [] = Map.empty"
    by (simp add: getResourcesHealth_def countBy_def)
  have "[success \<mapsto> 0::nat, warning \<mapsto> 0, error \<mapsto> 0] success \<noteq> Map.empty success"
    by simp
  then have "Map.empty \<noteq> [success \<mapsto> 0::nat, warning \<mapsto> 0, error \<mapsto> 0]"
    by metis
  with e show ?thesis by simp
qed


section \<open>Label selectors\<close>

text \<open>
  C5. For a project with non-empty labelSelectors the label group's condition holds
  iff the per-key predicate holds for every (key, selector) entry, and a failing
  group makes \<open>matchesProject\<close> false. For the two operators Equals and NotEquals
  the per-key predicate is the one the specification words: for a key absent from
  the resource's labels Equals is false and NotEquals is true, and for a present
  key NotEquals(v) is the negation of Equals(v).
\<close>

theorem label_group_condition:
  "(labelSelectors P \<noteq> [] \<longrightarrow>
      (matchesLabels R P \<longleftrightarrow>
         (\<forall>(k, s) \<in> set (labelSelectors P). matchesLabelSelector R k s)) \<and>
      (\<not> matchesLabels R P \<longrightarrow> \<not> matchesProject R P)) \<and>
   (operator s = ''Equals'' \<or> operator s = ''NotEquals'' \<longrightarrow>
      matchesLabelSelector R k s = spec_labelPredicate (resourceLabels R k) s) \<and>
   (resourceLabels R k = None \<longrightarrow>
      \<not> matchesLabelSelector R k (Equals v) \<and> matchesLabelSelector R k (NotEquals v)) \<and>
   (resourceLabels R k \<noteq> None \<longrightarrow>
      matchesLabelSelector R k (NotEquals v) = (\<not> matchesLabelSelector R k (Equals v)))"
proof -
  have a: "matchesLabels R P \<longleftrightarrow>
      (\<forall>(k, s) \<in> set (labelSelectors P). matchesLabelSelector R k s)"
    by (simp add: matchesLabels_def list_all_iff)
  have b: "\<not> matchesLabels R P \<longrightarrow> \<not> matchesProject R P"
    by (simp add: matchesProject_iff)
  have c: "matchesLabelSelector R k s = spec_labelPredicate (resourceLabels R k) s"
    if "operator s = ''Equals'' \<or> operator s = ''NotEquals''"
    using that by (cases "resourceLabels R k") (auto simp: matchesLabelSelector_cases)
  have d: "\<not> matchesLabelSelector R k (Equals v) \<and> matchesLabelSelector R k (NotEquals v)"
    if "resourceLabels R k = None"
    using that by (simp add: matchesLabelSelector_cases Equals_def NotEquals_def)
  have e: "matchesLabelSelector R k (NotEquals v) = (\<not> matchesLabelSelector R k (Equals v))"
    by (simp add: matchesLabelSelector_cases Equals_def NotEquals_def)
  from a b c d e show ?thesis by blast
qed

theorem label_group_condition_witness:
  "labelSelectors shopProject \<noteq> [] \<and>
   matchesLabels shopDeployment shopProject \<and>
   list_all (\<lambda>(k, s). matchesLabelSelector shopDeployment k s) (labelSelectors shopProject) \<and>
   (operator (Equals ''shop'') = ''Equals'' \<or> operator (Equals ''shop'') = ''NotEquals'') \<and>
   matchesLabelSelector shopDeployment ''app'' (Equals ''shop'') \<and>
   spec_labelPredicate (resourceLabels shopDeployment ''app'') (Equals ''shop'') \<and>
   resourceLabels shopDeployment ''app'' \<noteq> None \<and>
   \<not> matchesLabelSelector shopDeployment ''app'' (NotEquals ''shop'') \<and>
   resourceLabels noLabels ''app'' = None \<and>
   \<not> matchesLabelSelector noLabels ''app'' (Equals ''shop'') \<and>
   matchesLabelSelector noLabels ''app'' (NotEquals ''shop'') \<and>
   \<not> matchesLabels noLabels shopProject \<and>
   \<not> matchesProject noLabels shopProject"
  using label_group_condition [of shopProject shopDeployment "Equals ''shop''" "''app''" "''shop''"]
    label_group_condition [of shopProject noLabels "Equals ''shop''" "''app''" "''shop''"]
  by (simp add: makeDeployment_def baseProject_def Equals_def NotEquals_def shopProject_def
      shopDeployment_def noLabels_def matcher_defs)

text \<open>
  C9. A label selector whose operator is neither Equals nor NotEquals (such as
  the Exists and NotExists operators of the form) matches no resource under any
  key, and a project whose labelSelectors contain such a selector matches no
  resource at all.
\<close>

theorem unimplemented_operator_matches_nothing:
  assumes "operator S \<noteq> ''Equals''" and "operator S \<noteq> ''NotEquals''"
  shows "\<not> matchesLabelSelector R k S \<and>
         ((k, S) \<in> set (labelSelectors P) \<longrightarrow> \<not> matchesProject R' P)"
proof -
  have a: "\<not> matchesLabelSelector X k S" for X
    using assms by (simp add: matchesLabelSelector_cases)
  have "\<not> matchesLabels R' P" if "(k, S) \<in> set (labelSelectors P)"
    using that a [of R'] by (auto simp: matchesLabels_def list_all_iff)
  then show ?thesis
    using a [of R] by (simp add: matchesProject_iff)
qed

theorem unimplemented_operator_matches_nothing_witness:
  "operator existsSelector \<noteq> ''Equals'' \<and>
   operator existsSelector \<noteq> ''NotEquals'' \<and>
   (''app'', existsSelector) \<in> set (labelSelectors existsProject) \<and>
   \<not> matchesLabelSelector shopDeployment ''app'' existsSelector \<and>
   \<not> matchesProject shopDeployment existsProject"
  using unimplemented_operator_matches_nothing
    [of existsSelector shopDeployment "''app''" existsProject shopDeployment]
  by (simp add: existsProject_def existsSelector_def baseProject_def)

section \<open>Project membership\<close>

text \<open>
  C6. \<open>getProjectResources\<close> is the filter of the resource list by the matcher;
  applying it twice gives what applying it once gives, and its output is a
  subsequence of the input, in the input's order.
\<close>

theorem getProjectResources_filter:
  "getProjectResources P L = filter (\<lambda>R. matchesProject R P) L \<and>
   getProjectResources P (getProjectResources P L) = getProjectResources P L \<and>
   subseq (getProjectResources P L) L"
  by (simp add: getProjectResources_def)

section \<open>Health icon\<close>

text \<open>
  C7. For non-negative counts \<open>getHealthIcon\<close> is the fixed priority order: the
  unknown marker when the total is zero, else the alert marker when some resource
  is unhealthy, else the caution marker when some resource has a warning, else the
  ok marker. Hence on non-negative counts each marker is returned exactly on its
  own case.
\<close>

theorem getHealthIcon_priority:
  assumes "0 \<le> healthy" and "0 \<le> unhealthy" and "0 \<le> warn"
  shows "getHealthIcon healthy unhealthy warn =
           (if healthy + unhealthy + warn = 0 then ''mdi:help-circle''
            else if unhealthy > 0 then ''mdi:alert-circle''
            else if warn > 0 then ''mdi:alert''
            else ''mdi:check-circle'') \<and>
         (getHealthIcon healthy unhealthy warn = ''mdi:help-circle'' \<longleftrightarrow>
            healthy = 0 \<and> unhealthy = 0 \<and> warn = 0) \<and>
         (getHealthIcon healthy unhealthy warn = ''mdi:alert-circle'' \<longleftrightarrow> unhealthy > 0) \<and>
         (getHealthIcon healthy unhealthy warn = ''mdi:alert'' \<longleftrightarrow>
            unhealthy = 0 \<and> warn > 0) \<and>
         (getHealthIcon healthy unhealthy warn = ''mdi:check-circle'' \<longleftrightarrow>
            healthy > 0 \<and> unhealthy = 0 \<and> warn = 0)"
  using assms by (auto simp: getHealthIcon_def)

theorem getHealthIcon_priority_witness:
  "(0::int) \<le> 0 \<and> (0::int) \<le> 2 \<and> (0::int) \<le> 3 \<and>
   getHealthIcon 0 0 0 = ''mdi:help-circle'' \<and>
   getHealthIcon 2 3 3 = ''mdi:alert-circle'' \<and>
   getHealthIcon 2 0 3 = ''mdi:alert'' \<and>
   getHealthIcon 2 0 0 = ''mdi:check-circle''"
  using getHealthIcon_priority [of 0 0 0] getHealthIcon_priority [of 2 3 3]
    getHealthIcon_priority [of 2 0 3] getHealthIcon_priority [of 2 0 0]
  by simp

section \<open>Resources without metadata, labels or namespace\<close>

text \<open>
  C8. The matcher has no failing branch: every read of the resource's metadata
  goes through \<^verbatim>\<open>?.\<close> and the labels default to \<^verbatim>\<open>{}\<close>, so \<open>matchesProject\<close> and
  \<open>matchesLabelSelector\<close> are boolean-valued on every resource. On a resource whose
  metadata or labels mapping is absent they return what they return on the same
  resource with the empty labels mapping; a label selector then holds exactly
  when it is a NotEquals selector.
\<close>

theorem absent_labels_as_empty:
  assumes "metadata R = None \<or> (\<exists>m. metadata R = Some m \<and> labels m = None)"
  shows "matchesProject R P = matchesProject (withEmptyLabels R) P \<and>
         matchesLabelSelector R key selector =
           matchesLabelSelector (withEmptyLabels R) key selector \<and>
         matchesLabelSelector R key selector = (operator selector = ''NotEquals'')"
proof -
  have l: "resourceLabels R = Map.empty"
    using assms by (rule resourceLabels_absent)
  have s: "matchesLabelSelector R k s = matchesLabelSelector (withEmptyLabels R) k s" for k s
    by (simp add: matchesLabelSelector_cases l withEmptyLabels_simps)
  have p: "matchesProject R P = matchesProject (withEmptyLabels R) P"
    by (simp add: matchesProject_iff matchesApiResource_def matchesCluster_def
        matchesNamespace_def matchesLabels_def s [symmetric] withEmptyLabels_simps)
  have n: "matchesLabelSelector R key selector = (operator selector = ''NotEquals'')"
    by (auto simp: matchesLabelSelector_cases l)
  from s p n show ?thesis by simp
qed

theorem absent_labels_as_empty_witness:
  "(metadata noMetadata = None \<or>
      (\<exists>m. metadata noMetadata = Some m \<and> labels m = None)) \<and>
   (metadata noLabels = None \<or> (\<exists>m. metadata noLabels = Some m \<and> labels m = None)) \<and>
   matchesProject noMetadata shopProject = matchesProject (withEmptyLabels noMetadata) shopProject \<and>
   matchesProject noLabels (notNamespaceProject ''other'')
     = matchesProject (withEmptyLabels noLabels) (notNamespaceProject ''other'') \<and>
   matchesLabelSelector noMetadata ''app'' (NotEquals ''shop'') \<and>
   matchesLabelSelector (withEmptyLabels noMetadata) ''app'' (NotEquals ''shop'') \<and>
   \<not> matchesLabelSelector noLabels ''app'' (Equals ''shop'') \<and>
   \<not> matchesLabelSelector (withEmptyLabels noLabels) ''app'' (Equals ''shop'')"
  using absent_labels_as_empty [of noMetadata shopProject "''app''" "NotEquals ''shop''"]
    absent_labels_as_empty [of noLabels "notNamespaceProject ''other''" "''app''" "Equals ''shop''"]
  by (simp add: noMetadata_def noLabels_def Equals_def NotEquals_def shopProject_def
      notNamespaceProject_def baseProject_def withEmptyLabels_def matcher_defs)

text \<open>
  C10. A resource without a namespace (a cluster-scoped resource, or one without
  metadata) matches no project that has namespace selectors, whatever their
  operators and values.
\<close>

theorem absent_namespace_never_matches:
  assumes "namespaceSelectors P \<noteq> []" and "resourceNamespace R = None"
  shows "\<not> matchesProject R P"
  using assms by (simp add: matchesProject_iff matchesNamespace_def list_ex_iff)

theorem absent_namespace_never_matches_witness:
  "namespaceSelectors (notNamespaceProject ''other'') \<noteq> [] \<and>
   resourceNamespace clusterScoped = None \<and>
   \<not> matchesProject clusterScoped (notNamespaceProject ''other'') \<and>
   namespaceSelectors shopProject \<noteq> [] \<and>
   resourceNamespace noMetadata = None \<and>
   \<not> matchesProject noMetadata shopProject"
  using absent_namespace_never_matches [of "notNamespaceProject ''other''" clusterScoped]
    absent_namespace_never_matches [of shopProject noMetadata]
  by (simp add: notNamespaceProject_def shopProject_def baseProject_def clusterScoped_def
      noMetadata_def resourceNamespace_def)

end
